theory Spec2Isabelle
  imports Complex_Main "HOL-Library.Word"
begin

unbundle bit_operations_syntax

section \<open>Numbers, vectors and device conversions\<close>

text \<open>
  The device programs compute on 32-bit floats. Float arithmetic is idealised here as
  arithmetic on \<open>real\<close>: rounding, infinities and NaN are not modelled, so every
  statement below is about the formulas the kernels evaluate, not about their rounding
  error. Integers that are packed into pixels are 32-bit words.
\<close>

type_synonym u32 = "32 word"

datatype vec2 = Vec2 (x2: real) (y2: real)

datatype vec3 = Vec3 (x3: real) (y3: real) (z3: real)

definition vadd2 :: "vec2 \<Rightarrow> vec2 \<Rightarrow> vec2" where
  "vadd2 a b = Vec2 (x2 a + x2 b) (y2 a + y2 b)"


definition vscale2 :: "real \<Rightarrow> vec2 \<Rightarrow> vec2" where
  "vscale2 k a = Vec2 (k * x2 a) (k * y2 a)"

definition vadd :: "vec3 \<Rightarrow> vec3 \<Rightarrow> vec3" where
  "vadd a b = Vec3 (x3 a + x3 b) (y3 a + y3 b) (z3 a + z3 b)"

definition vsub :: "vec3 \<Rightarrow> vec3 \<Rightarrow> vec3" where
  "vsub a b = Vec3 (x3 a - x3 b) (y3 a - y3 b) (z3 a - z3 b)"

definition vscale :: "real \<Rightarrow> vec3 \<Rightarrow> vec3" where
  "vscale k a = Vec3 (k * x3 a) (k * y3 a) (k * z3 a)"

definition vmul :: "vec3 \<Rightarrow> vec3 \<Rightarrow> vec3" where
  \<comment> \<open>glm's componentwise product of two vectors\<close>
  "vmul a b = Vec3 (x3 a * x3 b) (y3 a * y3 b) (z3 a * z3 b)"

definition vneg :: "vec3 \<Rightarrow> vec3" where
  "vneg a = Vec3 (- x3 a) (- y3 a) (- z3 a)"

definition dot :: "vec3 \<Rightarrow> vec3 \<Rightarrow> real" where
  "dot a b = x3 a * x3 b + y3 a * y3 b + z3 a * z3 b"

definition normalize :: "vec3 \<Rightarrow> vec3" where
  "normalize a = vscale (1 / sqrt (dot a a)) a"

definition vzero :: vec3 where
  "vzero = Vec3 0 0 0"

text \<open>
  \<open>int(f)\<close> and \<open>uint32_t(f)\<close> on the device round towards zero and saturate at the
  ends of the target range.
\<close>

definition trunc_toward_zero :: "real \<Rightarrow> int" where
  "trunc_toward_zero r = (if 0 \<le> r then \<lfloor>r\<rfloor> else \<lceil>r\<rceil>)"

definition float2int :: "real \<Rightarrow> int" where
  "float2int r = max (- (2 ^ 31)) (min (2 ^ 31 - 1) (trunc_toward_zero r))"

definition float2uint :: "real \<Rightarrow> u32" where
  "float2uint r = word_of_int (max 0 (min (2 ^ 32 - 1) (trunc_toward_zero r)))"

definition pack_rgba :: "int \<Rightarrow> int \<Rightarrow> int \<Rightarrow> u32" where
  \<comment> \<open>\<open>0xff000000 | (r << 0) | (g << 8) | (b << 16)\<close>\<close>
  "pack_rgba r g b =
     0xff000000 OR push_bit 0 (word_of_int r) OR push_bit 8 (word_of_int g)
       OR push_bit 16 (word_of_int b)"

section \<open>The ray tracing facility\<close>

text \<open>
  The hardware ray tracer is outside the repository. It is modelled as an oracle that
  lists the intersections of a ray with the scene; \<open>optixTrace\<close> reports the nearest
  one whose distance lies in the ray interval \<open>[tmin, tmax]\<close>, or a miss. A hit carries
  what the closest-hit programs read: the distance, the primitive index, the
  barycentrics, and the shader-binding-table record of the mesh that was hit.
\<close>

record MeshSBTData =
  index :: "(nat \<times> nat \<times> nat) list"
  texcoord :: "vec2 list"
  vertex :: "vec3 list"
  objectNr :: nat

record hit =
  hitT :: real
  primID :: nat
  barycentrics :: vec2
  sbtData :: MeshSBTData

type_synonym traversable = "vec3 \<Rightarrow> vec3 \<Rightarrow> hit list"

fun closest :: "hit list \<Rightarrow> hit option" where
  "closest [] = None"
| "closest (h # hs) =
     (case closest hs of
        None \<Rightarrow> Some h
      | Some h' \<Rightarrow> if hitT h \<le> hitT h' then Some h else Some h')"

definition in_range :: "real \<Rightarrow> real \<Rightarrow> hit \<Rightarrow> bool" where
  "in_range tmin tmax h = (tmin \<le> hitT h \<and> hitT h \<le> tmax)"

definition optixTrace :: "traversable \<Rightarrow> vec3 \<Rightarrow> vec3 \<Rightarrow> real \<Rightarrow> real \<Rightarrow> hit option" where
  "optixTrace scene orig dir tmin tmax = closest (filter (in_range tmin tmax) (scene orig dir))"

definition hit_texcoord :: "hit \<Rightarrow> vec2" where
  \<comment> \<open>the barycentric texture coordinate every closest-hit program computes\<close>
  "hit_texcoord h =
     (case index (sbtData h) ! primID h of
        (i0, i1, i2) \<Rightarrow>
          let u = x2 (barycentrics h); v = y2 (barycentrics h) in
          vadd2 (vadd2 (vscale2 (1 - u - v) (texcoord (sbtData h) ! i0))
                       (vscale2 u (texcoord (sbtData h) ! i1)))
                (vscale2 v (texcoord (sbtData h) ! i2)))"

section \<open>Direct lighting pass\<close>

record LightData =
  origin :: vec3
  du :: vec3
  dv :: vec3
  normal :: vec3
  power :: vec3
  width :: real
  height :: real

record LaunchParamsDirectLighting =
  lights :: "LightData list"
  stratifyResX :: int
  stratifyResY :: int
  directLightingTextureSize :: int
  traversable :: traversable

definition NUM_SAMPLES_PER_STRATIFY_CELL :: nat where
  "NUM_SAMPLES_PER_STRATIFY_CELL = 64"

definition closesthit_radiance_direct_lighting :: "hit \<Rightarrow> vec2 \<Rightarrow> vec2" where
  "closesthit_radiance_direct_lighting h prd = hit_texcoord h"

definition miss_radiance_direct_lighting :: "vec2 \<Rightarrow> vec2" where
  "miss_radiance_direct_lighting prd = Vec2 (- 1) (- 1)"

definition direct_ray :: "LaunchParamsDirectLighting \<Rightarrow> nat \<times> nat \<times> nat \<Rightarrow> nat \<Rightarrow> vec3 \<times> vec3" where
  "direct_ray lp launchIndex i =
     (case launchIndex of
        (lightIndex, stratifyIndexX, stratifyIndexY) \<Rightarrow>
          let lightProperties = lights lp ! lightIndex;
              stratifyCellWidth = width lightProperties / real_of_int (stratifyResX lp);
              stratifyCellHeigth = height lightProperties / real_of_int (stratifyResY lp);
              cellOrigin =
                vadd (vadd (origin lightProperties)
                        (vscale (real stratifyIndexX * stratifyCellWidth) (du lightProperties)))
                     (vscale (real stratifyIndexY * stratifyCellHeigth) (dv lightProperties));
              cellXOffset = real (i div NUM_SAMPLES_PER_STRATIFY_CELL);
              cellYOffset = real (i div NUM_SAMPLES_PER_STRATIFY_CELL);
              rayOrigin =
                vadd (vadd cellOrigin
                        (vscale (cellXOffset * stratifyCellWidth) (du lightProperties)))
                     (vscale (cellYOffset * stratifyCellHeigth) (dv lightProperties))
          in (rayOrigin, normal lightProperties))"

definition direct_trace :: "LaunchParamsDirectLighting \<Rightarrow> nat \<times> nat \<times> nat \<Rightarrow> nat \<Rightarrow> hit option" where
  "direct_trace lp launchIndex i =
     (case direct_ray lp launchIndex i of
        (rayOrigin, rayDir) \<Rightarrow> optixTrace (traversable lp) rayOrigin rayDir 0 (10 ^ 20))"

definition direct_prd :: "LaunchParamsDirectLighting \<Rightarrow> nat \<times> nat \<times> nat \<Rightarrow> nat \<Rightarrow> vec2" where
  \<comment> \<open>the per-ray data after the trace call; it starts as \<open>glm::vec2(0.0f)\<close>\<close>
  "direct_prd lp launchIndex i =
     (case direct_trace lp launchIndex i of
        Some h \<Rightarrow> closesthit_radiance_direct_lighting h (Vec2 0 0)
      | None \<Rightarrow> miss_radiance_direct_lighting (Vec2 0 0))"

definition light_rgba :: "LightData \<Rightarrow> u32" where
  "light_rgba lightProperties =
     pack_rgba (float2int (255.99 * x3 (power lightProperties)))
               (float2int (255.99 * y3 (power lightProperties)))
               (float2int (255.99 * z3 (power lightProperties)))"

definition direct_sample ::
  "LaunchParamsDirectLighting \<Rightarrow> nat \<times> nat \<times> nat \<Rightarrow> nat \<Rightarrow> (u32 \<Rightarrow> u32) \<Rightarrow> (u32 \<Rightarrow> u32)" where
  "direct_sample lp launchIndex i colorBuffer =
     (let rayTexCoordPRD = direct_prd lp launchIndex i in
      if x2 rayTexCoordPRD \<noteq> - 1 \<and> y2 rayTexCoordPRD \<noteq> - 1
      then
        let rgba = light_rgba (lights lp ! fst launchIndex);
            uvIndex = float2uint (x2 rayTexCoordPRD
                        + y2 rayTexCoordPRD * real_of_int (directLightingTextureSize lp))
        in colorBuffer(uvIndex := rgba)
      else colorBuffer)"

definition raygen_renderFrame_direct_lighting ::
  "LaunchParamsDirectLighting \<Rightarrow> nat \<times> nat \<times> nat \<Rightarrow> (u32 \<Rightarrow> u32) \<Rightarrow> (u32 \<Rightarrow> u32)" where
  "raygen_renderFrame_direct_lighting lp launchIndex colorBuffer =
     fold (direct_sample lp launchIndex) [0..<NUM_SAMPLES_PER_STRATIFY_CELL] colorBuffer"

section \<open>Scatter pass\<close>

text \<open>
  The headers \<open>random.hpp\<close>, \<open>cube_mapping.cuh\<close> and the octree texture helpers are not
  among the sources, so the seed hash \<open>tea<4>\<close>, the generator \<open>rnd\<close> (which returns a
  float and advances the seed it is given by reference), the cube map projections and the
  octree accessors are parameters of the kernels. A texture object is the function that
  \<open>tex2D<float4>\<close> evaluates.
\<close>

datatype vec4 = Vec4 (x4: real) (y4: real) (z4: real) (w4: real)

type_synonym texture = "real \<Rightarrow> real \<Rightarrow> vec4"

definition xyz :: "vec4 \<Rightarrow> vec3" where
  "xyz c = Vec3 (x4 c) (y4 c) (z4 c)"

record prng =
  tea4 :: "u32 \<Rightarrow> u32 \<Rightarrow> u32"
  rnd :: "u32 \<Rightarrow> real \<times> u32"

definition PI :: real where
  "PI = 3.14159265358979323846"

definition uniformRandoms :: "prng \<Rightarrow> u32 \<Rightarrow> (real \<times> real) \<times> u32" where
  \<comment> \<open>\<open>float2{ rnd(seed), rnd(seed) }\<close>: two draws, left to right\<close>
  "uniformRandoms rng seed =
     (case rnd rng seed of
        (r1, seed1) \<Rightarrow> (case rnd rng seed1 of (r2, seed2) \<Rightarrow> ((r1, r2), seed2)))"

definition random_direction :: "real \<times> real \<Rightarrow> vec3" where
  "random_direction rs =
     (let randomTheta = fst rs * 2 * PI;
          randomZ = snd rs * 2 - 1
      in Vec3 (sqrt (1 - randomZ * randomZ) * cos randomTheta)
              (sqrt (1 - randomZ * randomZ) * sin randomTheta)
              randomZ)"

fun sample_seeds :: "prng \<Rightarrow> nat \<Rightarrow> u32 \<Rightarrow> u32 list" where
  "sample_seeds rng 0 seed = []"
| "sample_seeds rng (Suc n) seed = seed # sample_seeds rng n (snd (uniformRandoms rng seed))"

definition advance :: "prng \<Rightarrow> u32 \<Rightarrow> u32" where
  \<comment> \<open>the seed after the two draws of one sample\<close>
  "advance rng seed = snd (uniformRandoms rng seed)"

definition thread_uniforms :: "prng \<Rightarrow> nat \<Rightarrow> nat \<Rightarrow> nat \<Rightarrow> (real \<times> real) list" where
  \<comment> \<open>the pairs of uniform numbers that \<open>n\<close> samples draw, starting from the seed of
      launch index \<open>uvIndex\<close> in cell \<open>nonEmptyCellIndex\<close>\<close>
  "thread_uniforms rng uvIndex nonEmptyCellIndex n =
     map (\<lambda>seed. fst (uniformRandoms rng seed))
       (sample_seeds rng n (tea4 rng (of_nat uvIndex) (of_nat nonEmptyCellIndex)))"

subsection \<open>The random numbers of a thread, as successive calls of the generator\<close>




fun vsum :: "vec3 list \<Rightarrow> vec3" where
  "vsum [] = vzero"
| "vsum (c # cs) = vadd c (vsum cs)"

subsection \<open>Hybrid kernel: traced contribution within range, cube map probe beyond\<close>

definition NUM_SAMPLES_HEMISPHERE :: nat where
  "NUM_SAMPLES_HEMISPHERE = 10"

definition TRACING_RANGE :: real where
  "TRACING_RANGE = 0"

record RadianceCellScatterPRDHybrid =
  hitFound :: u32
  resultColor :: vec3

record LaunchParamsRadianceCellScatterCubeMap =
  sc_nonEmptyCellIndex :: nat
  sc_cellCoords :: "int \<times> int \<times> int"
  sc_probeWidthRes :: int
  sc_probeHeightRes :: int
  sc_uvsInsideOffsets :: "nat list"
  sc_uvsInside :: "vec2 list"
  sc_uvGameObjectNrs :: "nat list"
  sc_uvPositions :: "texture list"
  sc_uvNormals :: "texture list"
  sc_uvDiffuseColors :: "texture list"
  sc_hasTexture :: "bool list"
  sc_diffuseTextureUVs :: "texture list"
  sc_diffuseTextures :: "texture list"
  sc_cellCenter :: vec3
  sc_cubeMaps :: "int \<Rightarrow> texture"
  sc_prevBounceTextures :: "texture list"
  sc_objectTextureResolutions :: "int list"
  sc_sceneTraversable :: traversable
  sc_convert_xyz_to_cube_uv :: "real \<Rightarrow> real \<Rightarrow> real \<Rightarrow> int \<times> real \<times> real"

definition closesthit_radiance_cell_scattering_scene ::
  "LaunchParamsRadianceCellScatterCubeMap \<Rightarrow> hit \<Rightarrow> RadianceCellScatterPRDHybrid
     \<Rightarrow> RadianceCellScatterPRDHybrid" where
  "closesthit_radiance_cell_scattering_scene lp h prd =
     (let tc = hit_texcoord h;
          incomingRadiance = (sc_prevBounceTextures lp ! objectNr (sbtData h)) (x2 tc) (y2 tc)
      in prd\<lparr>hitFound := 1, resultColor := xyz incomingRadiance\<rparr>)"

definition miss_radiance_cell_scattering ::
  "RadianceCellScatterPRDHybrid \<Rightarrow> RadianceCellScatterPRDHybrid" where
  "miss_radiance_cell_scattering prd = prd"

record scatter_texel =
  texelUV :: vec2
  gameObjectNr :: nat
  UVWorldPos :: vec3
  UVNormal :: vec3
  diffuseColor :: vec3
  probeOffset :: int

definition hybrid_texel :: "LaunchParamsRadianceCellScatterCubeMap \<Rightarrow> nat \<Rightarrow> scatter_texel" where
  \<comment> \<open>what the ray generation program reads and computes before its sample loop\<close>
  "hybrid_texel lp uvIndex =
     (let uvInsideOffset = sc_uvsInsideOffsets lp ! sc_nonEmptyCellIndex lp;
          uv = sc_uvsInside lp ! (uvInsideOffset + uvIndex);
          gameObjectNr = sc_uvGameObjectNrs lp ! (uvInsideOffset + uvIndex);
          pos = xyz ((sc_uvPositions lp ! gameObjectNr) (x2 uv) (y2 uv));
          nrm = xyz ((sc_uvNormals lp ! gameObjectNr) (x2 uv) (y2 uv));
          diffuse0 = xyz ((sc_uvDiffuseColors lp ! gameObjectNr) (x2 uv) (y2 uv));
          diffuse =
            (if sc_hasTexture lp ! gameObjectNr
             then let diffuseTextureUV = (sc_diffuseTextureUVs lp ! gameObjectNr) (x2 uv) (y2 uv)
                  in xyz ((sc_diffuseTextures lp ! 0) (x4 diffuseTextureUV) (y4 diffuseTextureUV))
             else diffuse0)
      in (case sc_cellCoords lp of
            (cx, cy, cz) \<Rightarrow>
              \<lparr>texelUV = uv, gameObjectNr = gameObjectNr,
               UVWorldPos = Vec3 (x3 pos + x3 nrm * 0.0001) (y3 pos + y3 nrm * 0.0001)
                                 (z3 pos + z3 nrm * 0.0001),
               UVNormal = nrm, diffuseColor = diffuse,
               probeOffset =
                 ((cz * sc_probeWidthRes lp * sc_probeHeightRes lp) + (cy * sc_probeWidthRes lp)
                    + cx) * 6\<rparr>))"

definition hybrid_direction :: "scatter_texel \<Rightarrow> real \<times> real \<Rightarrow> real \<times> vec3" where
  \<comment> \<open>\<open>cosContribution\<close>, taken before the flip, and the direction that is traced\<close>
  "hybrid_direction tx rs =
     (let randomDir = normalize (random_direction rs);
          cosContribution = dot randomDir (normalize (UVNormal tx))
      in (cosContribution, if cosContribution < 0 then vneg randomDir else randomDir))"

definition hybrid_trace ::
  "LaunchParamsRadianceCellScatterCubeMap \<Rightarrow> scatter_texel \<Rightarrow> vec3 \<Rightarrow> vec3
     \<Rightarrow> RadianceCellScatterPRDHybrid" where
  \<comment> \<open>the payload after \<open>optixTrace\<close>; \<open>junk\<close> is what the uninitialised registers
      \<open>u1, u2, u3\<close> held before the call\<close>
  "hybrid_trace lp tx randomDir junk =
     (case optixTrace (sc_sceneTraversable lp) (UVWorldPos tx) randomDir 0 TRACING_RANGE of
        Some h \<Rightarrow>
          closesthit_radiance_cell_scattering_scene lp h \<lparr>hitFound = 0, resultColor = junk\<rparr>
      | None \<Rightarrow> miss_radiance_cell_scattering \<lparr>hitFound = 0, resultColor = junk\<rparr>)"

definition traced_contribution :: "real \<Rightarrow> RadianceCellScatterPRDHybrid \<Rightarrow> vec3" where
  "traced_contribution cosContribution prd =
     Vec3 (cosContribution * x3 (resultColor prd)) (cosContribution * y3 (resultColor prd))
          (cosContribution * z3 (resultColor prd))"

definition probe_contribution ::
  "LaunchParamsRadianceCellScatterCubeMap \<Rightarrow> scatter_texel \<Rightarrow> real \<Rightarrow> vec3 \<Rightarrow> vec3" where
  "probe_contribution lp tx cosContribution randomDir =
     (let distantProjectedPoint =
            vadd (UVWorldPos tx) (Vec3 (x3 randomDir * 1) (y3 randomDir * 1) (z3 randomDir * 1));
          probeSampleDirection = vsub distantProjectedPoint (sc_cellCenter lp)
      in (case sc_convert_xyz_to_cube_uv lp (x3 probeSampleDirection) (y3 probeSampleDirection)
                (z3 probeSampleDirection) of
            (cubeMapFaceIndex, faceU, faceV) \<Rightarrow>
              let incomingRadiance = sc_cubeMaps lp (probeOffset tx + cubeMapFaceIndex) faceU faceV;
                  averageProbeContribution = vadd vzero (xyz incomingRadiance)
              in vscale cosContribution averageProbeContribution))"

definition hybrid_contribution ::
  "LaunchParamsRadianceCellScatterCubeMap \<Rightarrow> scatter_texel \<Rightarrow> vec3 \<Rightarrow> real \<times> real \<Rightarrow> vec3" where
  "hybrid_contribution lp tx junk rs =
     (case hybrid_direction tx rs of
        (cosContribution, randomDir) \<Rightarrow>
          let prd = hybrid_trace lp tx randomDir junk in
          if hitFound prd = 1 then traced_contribution cosContribution prd
          else probe_contribution lp tx cosContribution randomDir)"

fun hybrid_loop ::
  "LaunchParamsRadianceCellScatterCubeMap \<Rightarrow> prng \<Rightarrow> scatter_texel \<Rightarrow> vec3 \<Rightarrow> nat
     \<Rightarrow> u32 \<times> vec3 \<Rightarrow> u32 \<times> vec3" where
  "hybrid_loop lp rng tx junk 0 st = st"
| "hybrid_loop lp rng tx junk (Suc n) (seed, totalRadiance) =
     (case uniformRandoms rng seed of
        (rs, seed') \<Rightarrow>
          hybrid_loop lp rng tx junk n
            (seed', vadd totalRadiance (hybrid_contribution lp tx junk rs)))"

definition hybrid_totalRadiance ::
  "LaunchParamsRadianceCellScatterCubeMap \<Rightarrow> prng \<Rightarrow> vec3 \<Rightarrow> nat \<Rightarrow> vec3" where
  \<comment> \<open>the accumulator when the sample loop ends\<close>
  "hybrid_totalRadiance lp rng junk uvIndex =
     snd (hybrid_loop lp rng (hybrid_texel lp uvIndex) junk NUM_SAMPLES_HEMISPHERE
            (tea4 rng (of_nat uvIndex) (of_nat (sc_nonEmptyCellIndex lp)), vzero))"

definition hybrid_resultValue ::
  "LaunchParamsRadianceCellScatterCubeMap \<Rightarrow> prng \<Rightarrow> vec3 \<Rightarrow> nat \<Rightarrow> vec4" where
  "hybrid_resultValue lp rng junk uvIndex =
     (let totalRadiance =
            vmul (hybrid_totalRadiance lp rng junk uvIndex)
                 (diffuseColor (hybrid_texel lp uvIndex));
          r = x3 totalRadiance / (real NUM_SAMPLES_HEMISPHERE * 2 * PI);
          g = y3 totalRadiance / (real NUM_SAMPLES_HEMISPHERE * 2 * PI);
          b = z3 totalRadiance / (real NUM_SAMPLES_HEMISPHERE * 2 * PI)
      in Vec4 r g b 0)"

definition hybrid_write_position ::
  "LaunchParamsRadianceCellScatterCubeMap \<Rightarrow> nat \<Rightarrow> nat \<times> int \<times> int" where
  \<comment> \<open>the surface, the byte offset in x and the row that \<open>surf2Dwrite\<close> is given\<close>
  "hybrid_write_position lp uvIndex =
     (let tx = hybrid_texel lp uvIndex;
          res = real_of_int (sc_objectTextureResolutions lp ! gameObjectNr tx)
      in (gameObjectNr tx, float2int (x2 (texelUV tx) * res / 2) * 16, float2int (y2 (texelUV tx) * res / 2)))"

definition raygen_renderFrame_cell_scattering ::
  "LaunchParamsRadianceCellScatterCubeMap \<Rightarrow> prng \<Rightarrow> vec3 \<Rightarrow> nat
     \<Rightarrow> (nat \<times> int \<times> int \<Rightarrow> vec4) \<Rightarrow> (nat \<times> int \<times> int \<Rightarrow> vec4)" where
  "raygen_renderFrame_cell_scattering lp rng junk uvIndex currentBounceTextures =
     currentBounceTextures
       (hybrid_write_position lp uvIndex := hybrid_resultValue lp rng junk uvIndex)"

subsection \<open>Unbiased kernel: every sample is traced, results go to an octree texture\<close>

definition NUM_DIRECTION_SAMPLES :: nat where
  "NUM_DIRECTION_SAMPLES = 100"

record UVWorldData =
  worldPosition :: vec3
  worldNormal :: vec3
  diffuseColorUV :: vec3

record 'o LaunchParamsRadianceCellScatterUnbiasedOctree =
  su_nonEmptyCellIndex :: nat
  su_uvsInsideOffsets :: "nat list"
  su_uvsInside :: "vec2 list"
  su_uvWorldPositionsSize :: int
  su_UVDataBuffer :: "int \<Rightarrow> UVWorldData"
  su_sceneTraversable :: traversable
  su_prevBounceOctreeTexture :: 'o
  su_read_octree :: "vec3 \<Rightarrow> 'o \<Rightarrow> vec3"
  su_write_octree :: "vec3 \<Rightarrow> vec3 \<Rightarrow> 'o \<Rightarrow> 'o"

definition closesthit_radiance_cell_scattering_scene_unbiased ::
  "'o LaunchParamsRadianceCellScatterUnbiasedOctree \<Rightarrow> hit \<Rightarrow> vec3 \<Rightarrow> vec3" where
  "closesthit_radiance_cell_scattering_scene_unbiased lp h prd =
     (case index (sbtData h) ! primID h of
        (i0, i1, i2) \<Rightarrow>
          let u = x2 (barycentrics h); v = y2 (barycentrics h);
              worldPos =
                vadd (vadd (vscale (1 - u - v) (vertex (sbtData h) ! i0))
                           (vscale u (vertex (sbtData h) ! i1)))
                     (vscale v (vertex (sbtData h) ! i2))
          in su_read_octree lp worldPos (su_prevBounceOctreeTexture lp))"

definition miss_radiance_cell_scattering_unbiased :: "vec3 \<Rightarrow> vec3" where
  "miss_radiance_cell_scattering_unbiased prd = Vec3 0 0 0"

definition unbiased_texel ::
  "'o LaunchParamsRadianceCellScatterUnbiasedOctree \<Rightarrow> nat \<Rightarrow> UVWorldData" where
  \<comment> \<open>the texel's record, its position already moved along the normal\<close>
  "unbiased_texel lp uvIndex =
     (let uvInsideOffset = su_uvsInsideOffsets lp ! su_nonEmptyCellIndex lp;
          uv = su_uvsInside lp ! (uvInsideOffset + uvIndex);
          u = float2int (x2 uv * real_of_int (su_uvWorldPositionsSize lp));
          v = float2int (y2 uv * real_of_int (su_uvWorldPositionsSize lp));
          d = su_UVDataBuffer lp (v * su_uvWorldPositionsSize lp + u);
          pos = worldPosition d; nrm = worldNormal d
      in d\<lparr>worldPosition :=
              Vec3 (x3 pos + x3 nrm * 0.00001) (y3 pos + y3 nrm * 0.00001)
                   (z3 pos + z3 nrm * 0.00001)\<rparr>)"

definition unbiased_direction :: "UVWorldData \<Rightarrow> real \<times> real \<Rightarrow> vec3" where
  "unbiased_direction tx rs =
     (let randomDir = random_direction rs
      in if dot randomDir (worldNormal tx) < 0 then vneg randomDir else randomDir)"

definition unbiased_trace ::
  "'o LaunchParamsRadianceCellScatterUnbiasedOctree \<Rightarrow> UVWorldData \<Rightarrow> vec3 \<Rightarrow> vec3 \<Rightarrow> vec3" where
  "unbiased_trace lp tx randomDir junk =
     (case optixTrace (su_sceneTraversable lp) (worldPosition tx) randomDir 0 (10 ^ 20) of
        Some h \<Rightarrow> closesthit_radiance_cell_scattering_scene_unbiased lp h junk
      | None \<Rightarrow> miss_radiance_cell_scattering_unbiased junk)"

definition unbiased_contribution ::
  "'o LaunchParamsRadianceCellScatterUnbiasedOctree \<Rightarrow> UVWorldData \<Rightarrow> vec3 \<Rightarrow> real \<times> real
     \<Rightarrow> vec3" where
  "unbiased_contribution lp tx junk rs =
     (let randomDir = unbiased_direction tx rs;
          prdColor = unbiased_trace lp tx randomDir junk;
          cosContribution = dot (normalize randomDir) (normalize (worldNormal tx))
      in Vec3 (cosContribution * x3 prdColor) (cosContribution * y3 prdColor)
              (cosContribution * z3 prdColor))"

fun unbiased_loop ::
  "'o LaunchParamsRadianceCellScatterUnbiasedOctree \<Rightarrow> prng \<Rightarrow> UVWorldData \<Rightarrow> vec3 \<Rightarrow> nat
     \<Rightarrow> u32 \<times> vec3 \<times> int \<Rightarrow> u32 \<times> vec3 \<times> int" where
  "unbiased_loop lp rng tx junk 0 st = st"
| "unbiased_loop lp rng tx junk (Suc n) (seed, totalRadiance, numSamples) =
     (case uniformRandoms rng seed of
        (rs, seed') \<Rightarrow>
          unbiased_loop lp rng tx junk n
            (seed', vadd totalRadiance (unbiased_contribution lp tx junk rs), numSamples + 1))"

definition unbiased_final ::
  "'o LaunchParamsRadianceCellScatterUnbiasedOctree \<Rightarrow> prng \<Rightarrow> vec3 \<Rightarrow> nat
     \<Rightarrow> u32 \<times> vec3 \<times> int" where
  \<comment> \<open>seed, accumulator and sample counter when the sample loop ends\<close>
  "unbiased_final lp rng junk uvIndex =
     unbiased_loop lp rng (unbiased_texel lp uvIndex) junk NUM_DIRECTION_SAMPLES
       (tea4 rng (of_nat uvIndex) (of_nat (su_nonEmptyCellIndex lp)), vzero, 0)"

definition unbiased_result ::
  "'o LaunchParamsRadianceCellScatterUnbiasedOctree \<Rightarrow> prng \<Rightarrow> vec3 \<Rightarrow> nat \<Rightarrow> vec3" where
  "unbiased_result lp rng junk uvIndex =
     (case unbiased_final lp rng junk uvIndex of
        (seed, totalRadiance, numSamples) \<Rightarrow>
          Vec3 (x3 totalRadiance / (real_of_int numSamples * PI))
               (y3 totalRadiance / (real_of_int numSamples * PI))
               (z3 totalRadiance / (real_of_int numSamples * PI)))"

definition raygen_renderFrame_cell_scattering_unbiased ::
  "'o LaunchParamsRadianceCellScatterUnbiasedOctree \<Rightarrow> prng \<Rightarrow> vec3 \<Rightarrow> nat \<Rightarrow> 'o \<Rightarrow> 'o" where
  "raygen_renderFrame_cell_scattering_unbiased lp rng junk uvIndex currentBounceOctreeTexture =
     su_write_octree lp (worldPosition (unbiased_texel lp uvIndex))
       (unbiased_result lp rng junk uvIndex) currentBounceOctreeTexture"

subsection \<open>A small scene for the direct lighting pass\<close>

definition example_mesh :: MeshSBTData where
  "example_mesh =
     \<lparr>index = [(0, 1, 2)], texcoord = [Vec2 (1 / 2) (1 / 4), Vec2 1 0, Vec2 0 1],
      vertex = [Vec3 0 0 0, Vec3 1 0 0, Vec3 0 1 0], objectNr = 0\<rparr>"

definition example_hit :: hit where
  "example_hit = \<lparr>hitT = 1, primID = 0, barycentrics = Vec2 0 0, sbtData = example_mesh\<rparr>"

definition example_light :: LightData where
  "example_light =
     \<lparr>origin = Vec3 0 0 1, du = Vec3 1 0 0, dv = Vec3 0 1 0, normal = Vec3 0 0 (- 1),
      power = Vec3 (1 / 10) (1 / 10) (1 / 10), width = 1, height = 1\<rparr>"

definition example_direct :: "traversable \<Rightarrow> LaunchParamsDirectLighting" where
  "example_direct scene =
     \<lparr>lights = [example_light], stratifyResX = 5, stratifyResY = 5,
      directLightingTextureSize = 8, traversable = scene\<rparr>"

definition empty_scene :: traversable where
  "empty_scene orig dir = []"

definition floor_scene :: traversable where
  "floor_scene orig dir = [example_hit]"

subsection \<open>A small scene for the scatter kernels\<close>

definition example_rng :: prng where
  "example_rng = \<lparr>tea4 = (\<lambda>a b. a + b), rnd = (\<lambda>seed. (0, seed + 1))\<rparr>"


definition example_unbiased :: "(vec3 \<Rightarrow> vec3) LaunchParamsRadianceCellScatterUnbiasedOctree" where
  "example_unbiased =
     \<lparr>su_nonEmptyCellIndex = 0, su_uvsInsideOffsets = [0], su_uvsInside = [Vec2 0 0],
      su_uvWorldPositionsSize = 1,
      su_UVDataBuffer =
        (\<lambda>k. \<lparr>worldPosition = Vec3 0 0 0, worldNormal = Vec3 0 0 1,
              diffuseColorUV = Vec3 (1 / 2) (1 / 2) (1 / 2)\<rparr>),
      su_sceneTraversable = floor_scene,
      su_prevBounceOctreeTexture = (\<lambda>p. Vec3 1 1 1),
      su_read_octree = (\<lambda>p t. t p),
      su_write_octree = (\<lambda>p c t. t(p := c))\<rparr>"

definition example_hybrid :: LaunchParamsRadianceCellScatterCubeMap where
  "example_hybrid =
     \<lparr>sc_nonEmptyCellIndex = 0, sc_cellCoords = (0, 0, 0), sc_probeWidthRes = 1,
      sc_probeHeightRes = 1, sc_uvsInsideOffsets = [0], sc_uvsInside = [Vec2 0 0],
      sc_uvGameObjectNrs = [0],
      sc_uvPositions = [\<lambda>u v. Vec4 0 0 0 1],
      sc_uvNormals = [\<lambda>u v. Vec4 0 0 1 0],
      sc_uvDiffuseColors = [\<lambda>u v. Vec4 (1 / 2) (1 / 2) (1 / 2) 1],
      sc_hasTexture = [False], sc_diffuseTextureUVs = [], sc_diffuseTextures = [],
      sc_cellCenter = Vec3 0 0 0,
      sc_cubeMaps = (\<lambda>k u v. Vec4 3 3 3 1),
      sc_prevBounceTextures = [\<lambda>u v. Vec4 1 1 1 1],
      sc_objectTextureResolutions = [8],
      sc_sceneTraversable = floor_scene,
      sc_convert_xyz_to_cube_uv = (\<lambda>x y z. (0, 1 / 2, 1 / 2))\<rparr>"

section \<open>Cube map gather pass\<close>

record LaunchParamsRadianceCellGatherCubeMap =
  g_probePosition :: vec3
  g_cubeMapResolution :: int
  g_probeOffset :: int
  g_lightSourceTextureSize :: int
  g_lightSourceColorBuffer :: "int \<Rightarrow> u32"
  g_sceneTraversable :: traversable
  g_convert_uv_to_cube_xyz :: "int \<Rightarrow> real \<Rightarrow> real \<Rightarrow> vec3"

definition closesthit_radiance_cell_gathering_scene ::
  "LaunchParamsRadianceCellGatherCubeMap \<Rightarrow> hit \<Rightarrow> vec3 \<Rightarrow> vec3" where
  "closesthit_radiance_cell_gathering_scene lp h prd =
     (let tc = hit_texcoord h;
          uTexelCoord = float2int (x2 tc * real_of_int (g_lightSourceTextureSize lp));
          vTexelCoord = float2int (y2 tc * real_of_int (g_lightSourceTextureSize lp));
          lightSrcColor =
            g_lightSourceColorBuffer lp (vTexelCoord * g_lightSourceTextureSize lp + uTexelCoord);
          r = 0x000000ff AND lightSrcColor;
          g = drop_bit 8 (0x0000ff00 AND lightSrcColor);
          b = drop_bit 16 (0x00ff0000 AND lightSrcColor)
      in Vec3 (real (unat r)) (real (unat g)) (real (unat b)))"

definition miss_radiance_cell_gathering :: "vec3 \<Rightarrow> vec3" where
  "miss_radiance_cell_gathering prd = Vec3 0 0 0"

definition gather_trace ::
  "LaunchParamsRadianceCellGatherCubeMap \<Rightarrow> nat \<times> nat \<times> nat \<Rightarrow> hit option" where
  "gather_trace lp launchIndex =
     (case launchIndex of
        (uPixel, vPixel, faceIndex) \<Rightarrow>
          let u = real uPixel / real_of_int (g_cubeMapResolution lp);
              v = real vPixel / real_of_int (g_cubeMapResolution lp);
              rayDir = g_convert_uv_to_cube_xyz lp (int faceIndex) u v;
              normalizedRayDir = normalize rayDir
          in optixTrace (g_sceneTraversable lp) (g_probePosition lp) normalizedRayDir 0 (10 ^ 20))"

definition gather_prd ::
  "LaunchParamsRadianceCellGatherCubeMap \<Rightarrow> vec3 \<Rightarrow> nat \<times> nat \<times> nat \<Rightarrow> vec3" where
  \<comment> \<open>the colour in the payload registers after the trace call\<close>
  "gather_prd lp junk launchIndex =
     (case gather_trace lp launchIndex of
        Some h \<Rightarrow> closesthit_radiance_cell_gathering_scene lp h junk
      | None \<Rightarrow> miss_radiance_cell_gathering junk)"

definition gather_rgba ::
  "LaunchParamsRadianceCellGatherCubeMap \<Rightarrow> vec3 \<Rightarrow> nat \<times> nat \<times> nat \<Rightarrow> u32" where
  "gather_rgba lp junk launchIndex =
     (let prdColor = gather_prd lp junk launchIndex
      in pack_rgba (float2int (x3 prdColor)) (float2int (y3 prdColor)) (float2int (z3 prdColor)))"

definition gather_index ::
  "LaunchParamsRadianceCellGatherCubeMap \<Rightarrow> nat \<times> nat \<times> nat \<Rightarrow> int" where
  "gather_index lp launchIndex =
     (case launchIndex of
        (uPixel, vPixel, faceIndex) \<Rightarrow>
          let uvIndex = int vPixel * g_cubeMapResolution lp + int uPixel
          in (g_probeOffset lp
                + int faceIndex * (g_cubeMapResolution lp * g_cubeMapResolution lp)) + uvIndex)"

definition raygen_renderFrame_cell_gathering ::
  "LaunchParamsRadianceCellGatherCubeMap \<Rightarrow> (nat \<times> nat \<times> nat \<Rightarrow> vec3) \<Rightarrow> nat \<times> nat \<times> nat
     \<Rightarrow> (int \<Rightarrow> u32) \<Rightarrow> (int \<Rightarrow> u32)" where
  "raygen_renderFrame_cell_gathering lp junk launchIndex cubeMaps =
     cubeMaps(gather_index lp launchIndex := gather_rgba lp (junk launchIndex) launchIndex)"

definition launch_grid :: "nat \<Rightarrow> nat \<Rightarrow> nat \<Rightarrow> (nat \<times> nat \<times> nat) list" where
  \<comment> \<open>the launch indices of an \<open>optixLaunch\<close> of the given width, height and depth\<close>
  "launch_grid w h d = concat (map (\<lambda>z. concat (map (\<lambda>y. map (\<lambda>x. (x, y, z)) [0..<w]) [0..<h])) [0..<d])"

definition gather_launch ::
  "LaunchParamsRadianceCellGatherCubeMap \<Rightarrow> (nat \<times> nat \<times> nat \<Rightarrow> vec3)
     \<Rightarrow> (nat \<times> nat \<times> nat) list \<Rightarrow> (int \<Rightarrow> u32) \<Rightarrow> (int \<Rightarrow> u32)" where
  \<comment> \<open>the threads of one launch, run one after the other\<close>
  "gather_launch lp junk launchIndices cubeMaps =
     fold (raygen_renderFrame_cell_gathering lp junk) launchIndices cubeMaps"

definition example_gather :: LaunchParamsRadianceCellGatherCubeMap where
  "example_gather =
     \<lparr>g_probePosition = Vec3 0 0 0, g_cubeMapResolution = 4, g_probeOffset = 24,
      g_lightSourceTextureSize = 8, g_lightSourceColorBuffer = (\<lambda>k. 0xffffffff),
      g_sceneTraversable = empty_scene,
      g_convert_uv_to_cube_xyz = (\<lambda>f u v. Vec3 1 u v)\<rparr>"

section \<open>The SH weights text file\<close>

text \<open>
  \<open>writeWeightsToTxtFile\<close> inserts floats and the strings \<open>" "\<close> and \<open>"\n"\<close> into an
  output stream. The stream is modelled as the list of the items inserted, in order; how a
  float is printed is not modelled. \<open>numSamples\<close> holds 32-bit ints, and
  \<open>numSamples[k] * 4\<close> is an int product: it is modelled with two's complement
  wrap-around. \<open>glm::pi<float>()\<close> is idealised as \<open>pi\<close>. A float that is an infinity or
  a NaN is the item \<open>NonFinite\<close>. Reading a vector past its end is undefined in C++ and
  unspecified here.
\<close>

datatype out_item = Float real | NonFinite | Text string

definition newline :: out_item where
  "newline = Text [CHR 0x0A]"

definition space :: out_item where
  "space = Text '' ''"

definition SPHERICAL_HARMONIC_BASIS_FUNCTIONS :: nat where
  "SPHERICAL_HARMONIC_BASIS_FUNCTIONS = 9"

definition mul_int32 :: "int \<Rightarrow> int \<Rightarrow> int" where
  "mul_int32 a b = sint (word_of_int (a * b) :: 32 word)"

definition sh_weight :: "int \<Rightarrow> real option" where
  \<comment> \<open>\<open>None\<close>: the divisor is 0, and the float quotient \<open>1.0f / 0\<close> is an infinity\<close>
  "sh_weight n =
     (if n > 0
      then (if mul_int32 n 4 = 0 then None
            else Some (1 / (real_of_int (mul_int32 n 4) * pi)))
      else Some 0)"

definition coefficient_item :: "real \<Rightarrow> real option \<Rightarrow> out_item" where
  \<comment> \<open>\<open>outputFile << c * weight\<close>; with an infinite weight the product is an infinity or a NaN\<close>
  "coefficient_item c weight = (case weight of Some w \<Rightarrow> Float (c * w) | None \<Rightarrow> NonFinite)"

definition write_coefficients :: "real list \<Rightarrow> real option \<Rightarrow> nat \<Rightarrow> out_item list" where
  \<comment> \<open>the loop over \<open>bf\<close>, where \<open>offset\<close> is \<open>cellOffset + shOffset\<close>\<close>
  "write_coefficients weights weight offset =
     concat (map (\<lambda>bf. if bf < 8
                        then [coefficient_item (weights ! (offset + bf)) weight, space]
                        else [coefficient_item (weights ! (offset + bf)) weight])
              [0..<9])"

definition write_sh :: "real list \<Rightarrow> int list \<Rightarrow> nat \<Rightarrow> nat \<Rightarrow> out_item list" where
  \<comment> \<open>the body of the loop over \<open>sh\<close>, for cell \<open>i\<close>\<close>
  "write_sh weights numSamples i sh =
     (let cellOffset = i * 8 * SPHERICAL_HARMONIC_BASIS_FUNCTIONS;
          weight = sh_weight (numSamples ! (i * 8 + sh));
          shOffset = sh * SPHERICAL_HARMONIC_BASIS_FUNCTIONS
      in write_coefficients weights weight (cellOffset + shOffset) @ [newline])"

definition writeWeightsToTxtFile :: "real list \<Rightarrow> int list \<Rightarrow> nat \<Rightarrow> out_item list" where
  "writeWeightsToTxtFile weights numSamples amountCells =
     concat (map (\<lambda>i. concat (map (write_sh weights numSamples i) [0..<8])) [0..<amountCells])"

definition written_line :: "real list \<Rightarrow> int list \<Rightarrow> nat \<Rightarrow> out_item list" where
  \<comment> \<open>what the loop over \<open>bf\<close> writes for sub-probe \<open>k = i * 8 + sh\<close>\<close>
  "written_line weights numSamples k =
     write_coefficients weights (sh_weight (numSamples ! k)) (k * 9)"

subsection \<open>The file as the specification describes it\<close>

fun lines_of :: "out_item list \<Rightarrow> out_item list list" where
  "lines_of [] = []"
| "lines_of (t # ts) =
     (if t = newline then [] # lines_of ts
      else (case lines_of ts of [] \<Rightarrow> [[t]] | l # ls \<Rightarrow> (t # l) # ls))"

fun spaced :: "real list \<Rightarrow> out_item list" where
  "spaced [] = []"
| "spaced [c] = [Float c]"
| "spaced (c # d # cs) = Float c # space # spaced (d # cs)"

definition normalization_weight :: "int \<Rightarrow> real" where
  \<comment> \<open>\<open>1 / (N * 4 * pi)\<close>, and 0 for a sub-probe without samples\<close>
  "normalization_weight n = (if n > 0 then 1 / (real_of_int n * 4 * pi) else 0)"

definition sh_line :: "real list \<Rightarrow> int list \<Rightarrow> nat \<Rightarrow> out_item list" where
  \<comment> \<open>line \<open>k = cell * 8 + subProbe\<close>: its nine normalised coefficients, separated by spaces\<close>
  "sh_line weights numSamples k =
     spaced (map (\<lambda>bf. weights ! (k * 9 + bf) * normalization_weight (numSamples ! k)) [0..<9])"

definition example_weights :: "real list" where
  "example_weights = replicate 72 2"

definition example_numSamples :: "int list" where
  "example_numSamples = [5, 0, 1, 1, 1, 1, 1, 1]"

definition overflow_numSamples :: "int list" where
  "overflow_numSamples = [536870912, 0, 1, 1, 1, 1, 1, 1]"

section \<open>UV to world projection\<close>











subsection \<open>The projection as the specification describes it\<close>







section \<open>Octree file\<close>

text \<open>
  Modelled from the spec: \<open>OctreeBuilder::saveOctreeToFile\<close> and the constructor that
  loads an octree from a path are declared in \<open>octree_builder.hpp\<close>, and their bodies
  are not among the sources. The specification gives the file as a flat numeric array: a
  header with the maximum depth and the resolution of the indirection grid on each axis,
  then the serialized array \<open>gpuOctree\<close>. Here every number takes four bytes, least
  significant first, a float being its 32 bits, and loading reads the body up to the end
  of the file.
\<close>

type_synonym byte = "8 word"

record OctreeFile =
  maxDepth :: u32
  textureDimensions :: "u32 \<times> u32 \<times> u32"
  gpuOctree :: "u32 list"

definition bytes_of_u32 :: "u32 \<Rightarrow> byte list" where
  "bytes_of_u32 w = [ucast w, ucast (drop_bit 8 w), ucast (drop_bit 16 w), ucast (drop_bit 24 w)]"

definition u32_of_bytes :: "byte \<Rightarrow> byte \<Rightarrow> byte \<Rightarrow> byte \<Rightarrow> u32" where
  "u32_of_bytes b0 b1 b2 b3 =
     ucast b0 OR push_bit 8 (ucast b1) OR push_bit 16 (ucast b2) OR push_bit 24 (ucast b3)"

definition saveOctreeToFile :: "OctreeFile \<Rightarrow> byte list" where
  "saveOctreeToFile t =
     (case textureDimensions t of
        (rx, ry, rz) \<Rightarrow>
          bytes_of_u32 (maxDepth t) @ bytes_of_u32 rx @ bytes_of_u32 ry @ bytes_of_u32 rz
            @ concat (map bytes_of_u32 (gpuOctree t)))"

fun read_u32s :: "byte list \<Rightarrow> u32 list option" where
  "read_u32s [] = Some []"
| "read_u32s (b0 # b1 # b2 # b3 # bs) =
     (case read_u32s bs of None \<Rightarrow> None | Some ws \<Rightarrow> Some (u32_of_bytes b0 b1 b2 b3 # ws))"
| "read_u32s bs = None"

definition loadOctreeFromFile :: "byte list \<Rightarrow> OctreeFile option" where
  "loadOctreeFromFile bs =
     (case read_u32s bs of
        Some (d # rx # ry # rz # body) \<Rightarrow>
          Some \<lparr>maxDepth = d, textureDimensions = (rx, ry, rz), gpuOctree = body\<rparr>
      | _ \<Rightarrow> None)"

section \<open>Direct lighting: misses and hits\<close>

lemma direct_prd_miss:
  "direct_trace lp launchIndex i = None \<Longrightarrow> direct_prd lp launchIndex i = Vec2 (- 1) (- 1)"
  by (simp add: direct_prd_def miss_radiance_direct_lighting_def)

text \<open>
  C6. In the direct lighting pass a ray that misses all geometry gets the sentinel
  texture coordinate (-1,-1) from the miss program, and the ray generation program then
  makes no write: the direct-lighting texture is the same before and after that ray.
\<close>

theorem direct_lighting_miss_no_write:
  assumes "direct_trace lp launchIndex i = None"
  shows "direct_prd lp launchIndex i = Vec2 (- 1) (- 1)
         \<and> direct_sample lp launchIndex i colorBuffer = colorBuffer"
  using assms by (simp add: direct_sample_def direct_prd_miss)

theorem direct_lighting_miss_no_write_witness:
  "direct_trace (example_direct empty_scene) (0, 2, 3) 5 = None
   \<and> direct_prd (example_direct empty_scene) (0, 2, 3) 5 = Vec2 (- 1) (- 1)
   \<and> direct_sample (example_direct empty_scene) (0, 2, 3) 5 (\<lambda>k. 7) = (\<lambda>k. 7)"
proof -
  have miss: "direct_trace (example_direct empty_scene) (0, 2, 3) 5 = None"
    by (simp add: direct_trace_def direct_ray_def optixTrace_def example_direct_def
        empty_scene_def Let_def)
  show ?thesis
    using miss direct_lighting_miss_no_write [OF miss, of "\<lambda>k. 7"] by simp
qed

lemma example_hit_texcoord: "hit_texcoord example_hit = Vec2 (1 / 2) (1 / 4)"
  by (simp add: hit_texcoord_def example_hit_def example_mesh_def vadd2_def vscale2_def)

lemma floor_scene_trace: "direct_trace (example_direct floor_scene) (0, 0, 0) 0 = Some example_hit"
  by (simp add: direct_trace_def direct_ray_def optixTrace_def example_direct_def
      floor_scene_def in_range_def example_hit_def Let_def)

lemma example_light_rgba: "light_rgba example_light = 0xff191919"
  by (simp add: light_rgba_def example_light_def pack_rgba_def float2int_def
      trunc_toward_zero_def)

lemma example_direct_fields:
  "lights (example_direct scene) = [example_light]"
  "directLightingTextureSize (example_direct scene) = 8"
  by (simp_all add: example_direct_def)

lemma example_uvIndex: "float2uint (5 / 2) = 2"
  unfolding float2uint_def trunc_toward_zero_def by code_simp

text \<open>
  C2, as stated, fails: the ray generation program assigns the light's colour to the
  texel. At a texel that already holds \<open>0x000a0a0a\<close> a hit leaves \<open>0xff191919\<close>,
  which is the light's colour alone and not the previous value plus the light's colour.
\<close>

theorem direct_lighting_overwrites_counterexample:
  "direct_sample (example_direct floor_scene) (0, 0, 0) 0 (\<lambda>k. 0x000a0a0a) 2 = 0xff191919
   \<and> direct_sample (example_direct floor_scene) (0, 0, 0) 0 (\<lambda>k. 0x000a0a0a) 2
       \<noteq> (\<lambda>k. 0x000a0a0a) 2 + light_rgba example_light
   \<and> direct_sample (example_direct floor_scene) (0, 0, 0) 0 (\<lambda>k. 0x000a0a0a) 2
       = direct_sample (example_direct floor_scene) (0, 0, 0) 0 (\<lambda>k. 0) 2"
  by (simp add: direct_sample_def direct_prd_def floor_scene_trace
      closesthit_radiance_direct_lighting_def example_hit_texcoord example_light_rgba
      example_uvIndex example_direct_fields)

text \<open>
  C2, amended. For every light and stratify cell (every launch index) and every ray of
  the cell that hits geometry at a texture coordinate with neither component equal to
  -1, the program stores the light's packed colour, with alpha \<open>0xff\<close>, in one element
  of the direct-lighting texture: whatever that element held before is discarded, nothing
  is added to it, and every other element is kept. Which element is written is left open
  here.
\<close>

theorem direct_lighting_hit_overwrites:
  assumes "direct_trace lp launchIndex i = Some h"
    and "x2 (hit_texcoord h) \<noteq> - 1" and "y2 (hit_texcoord h) \<noteq> - 1"
  shows "\<exists>k. \<forall>colorBuffer.
           direct_sample lp launchIndex i colorBuffer =
             colorBuffer(k := light_rgba (lights lp ! fst launchIndex))"
  using assms
  by (auto simp: direct_sample_def direct_prd_def closesthit_radiance_direct_lighting_def
      Let_def)

theorem direct_lighting_hit_overwrites_witness:
  "direct_trace (example_direct floor_scene) (0, 0, 0) 0 = Some example_hit
   \<and> x2 (hit_texcoord example_hit) \<noteq> - 1 \<and> y2 (hit_texcoord example_hit) \<noteq> - 1
   \<and> light_rgba (lights (example_direct floor_scene) ! fst (0 :: nat, 0 :: nat, 0 :: nat))
       = 0xff191919
   \<and> (\<exists>k. \<forall>colorBuffer.
         direct_sample (example_direct floor_scene) (0, 0, 0) 0 colorBuffer =
           colorBuffer(k := 0xff191919))"
proof -
  have a: "x2 (hit_texcoord example_hit) \<noteq> - 1" and b: "y2 (hit_texcoord example_hit) \<noteq> - 1"
    by (simp_all add: example_hit_texcoord)
  have c: "light_rgba (lights (example_direct floor_scene) ! fst (0 :: nat, 0 :: nat, 0 :: nat))
             = 0xff191919"
    by (simp add: example_direct_fields example_light_rgba)
  show ?thesis
    using direct_lighting_hit_overwrites [OF floor_scene_trace a b] a b c
    by (simp add: floor_scene_trace)
qed

section \<open>Scatter pass: what is written\<close>

lemma vadd_assoc: "vadd (vadd a b) c = vadd a (vadd b c)"
  by (simp add: vadd_def)

lemma vadd_vzero_right: "vadd a vzero = a"
  by (simp add: vadd_def vzero_def)

lemma vadd_vzero_left: "vadd vzero a = a"
  by (simp add: vadd_def vzero_def)

lemma hybrid_loop_snd:
  "snd (hybrid_loop lp rng tx junk n (seed, acc)) =
     vadd acc (vsum (map (\<lambda>s. hybrid_contribution lp tx junk (fst (uniformRandoms rng s)))
                        (sample_seeds rng n seed)))"
proof (induction n arbitrary: seed acc)
  case 0
  show ?case by (simp add: vadd_vzero_right)
next
  case (Suc n)
  show ?case
    by (cases "uniformRandoms rng seed") (simp add: Suc.IH vadd_assoc)
qed

lemma hybrid_totalRadiance_sum:
  "hybrid_totalRadiance lp rng junk uvIndex =
     vsum (map (hybrid_contribution lp (hybrid_texel lp uvIndex) junk)
             (thread_uniforms rng uvIndex (sc_nonEmptyCellIndex lp) NUM_SAMPLES_HEMISPHERE))"
  by (simp add: hybrid_totalRadiance_def hybrid_loop_snd thread_uniforms_def vadd_vzero_left
      comp_def)

lemma funpow_advance: "(advance rng ^^ Suc k) seed = (advance rng ^^ k) (advance rng seed)"
  by (simp add: funpow_swap1)

lemma unbiased_loop_eq:
  "unbiased_loop lp rng tx junk n (seed, acc, k) =
     ((advance rng ^^ n) seed,
      vadd acc (vsum (map (\<lambda>s. unbiased_contribution lp tx junk (fst (uniformRandoms rng s)))
                        (sample_seeds rng n seed))),
      k + int n)"
proof (induction n arbitrary: seed acc k)
  case 0
  show ?case by (simp add: vadd_vzero_right)
next
  case (Suc n)
  obtain rs seed' where u: "uniformRandoms rng seed = (rs, seed')"
    by (cases "uniformRandoms rng seed")
  then have a: "advance rng seed = seed'"
    by (simp add: advance_def)
  show ?case
    unfolding funpow_advance a using u by (simp add: Suc.IH vadd_assoc)
qed

lemma hybrid_loop_fst:
  "fst (hybrid_loop lp rng tx junk k (seed, acc)) = (advance rng ^^ k) seed"
proof (induction k arbitrary: seed acc)
  case 0
  show ?case by simp
next
  case (Suc k)
  obtain rs seed' where u: "uniformRandoms rng seed = (rs, seed')"
    by (cases "uniformRandoms rng seed")
  then have a: "advance rng seed = seed'"
    by (simp add: advance_def)
  show ?case
    unfolding funpow_advance a using u by (simp add: Suc.IH)
qed

lemma length_sample_seeds: "length (sample_seeds rng n seed) = n"
  by (induction n arbitrary: seed) simp_all

lemma vsum_replicate: "vsum (replicate n c) = vscale (real n) c"
  by (induction n) (simp_all add: vzero_def vscale_def vadd_def algebra_simps)

lemma PI_pos: "0 < PI"
  by (simp add: PI_def)

lemma example_uniforms: "fst (uniformRandoms example_rng seed) = (0, 0)"
  by (simp add: uniformRandoms_def example_rng_def)

lemma example_thread_uniforms: "thread_uniforms example_rng uvIndex c n = replicate n (0, 0)"
  by (simp add: thread_uniforms_def example_uniforms map_replicate_const length_sample_seeds)

lemma random_direction_00: "random_direction (0, 0) = Vec3 0 0 (- 1)"
  by (simp add: random_direction_def)

lemma example_unbiased_texel:
  "unbiased_texel example_unbiased 0 =
     \<lparr>worldPosition = Vec3 0 0 (1 / 100000), worldNormal = Vec3 0 0 1,
      diffuseColorUV = Vec3 (1 / 2) (1 / 2) (1 / 2)\<rparr>"
  by (simp add: unbiased_texel_def example_unbiased_def float2int_def trunc_toward_zero_def)

lemma example_unbiased_fields:
  "su_nonEmptyCellIndex example_unbiased = 0"
  "su_sceneTraversable example_unbiased = floor_scene"
  "su_prevBounceOctreeTexture example_unbiased = (\<lambda>p. Vec3 1 1 1)"
  "su_read_octree example_unbiased = (\<lambda>p t. t p)"
  by (simp_all add: example_unbiased_def)

lemma floor_scene_optixTrace:
  "tmin \<le> 1 \<Longrightarrow> 1 \<le> tmax \<Longrightarrow> optixTrace floor_scene orig dir tmin tmax = Some example_hit"
  by (simp add: optixTrace_def floor_scene_def in_range_def example_hit_def)

lemma example_unbiased_contribution:
  "unbiased_contribution example_unbiased
     \<lparr>worldPosition = Vec3 0 0 (1 / 100000), worldNormal = Vec3 0 0 1,
      diffuseColorUV = Vec3 (1 / 2) (1 / 2) (1 / 2)\<rparr> junk (0, 0) = Vec3 1 1 1"
  by (simp add: unbiased_contribution_def unbiased_direction_def
      random_direction_00 dot_def vneg_def unbiased_trace_def floor_scene_optixTrace
      example_unbiased_fields closesthit_radiance_cell_scattering_scene_unbiased_def
      example_hit_def example_mesh_def normalize_def vscale_def vadd_def Let_def)

lemma unbiased_result_sum:
  "unbiased_result lp rng junk uvIndex =
     (let contributions =
            map (unbiased_contribution lp (unbiased_texel lp uvIndex) junk)
              (thread_uniforms rng uvIndex (su_nonEmptyCellIndex lp) NUM_DIRECTION_SAMPLES);
          s = vsum contributions
      in Vec3 (x3 s / (real NUM_DIRECTION_SAMPLES * PI)) (y3 s / (real NUM_DIRECTION_SAMPLES * PI))
              (z3 s / (real NUM_DIRECTION_SAMPLES * PI)))"
  by (simp add: unbiased_result_def unbiased_final_def unbiased_loop_eq thread_uniforms_def
      vadd_vzero_left comp_def Let_def)

lemma example_unbiased_result:
  "unbiased_result example_unbiased example_rng junk 0 = Vec3 (1 / PI) (1 / PI) (1 / PI)"
proof -
  show ?thesis
    using PI_pos
    by (simp add: unbiased_result_sum example_unbiased_fields example_thread_uniforms example_unbiased_texel example_unbiased_contribution
        vsum_replicate vscale_def NUM_DIRECTION_SAMPLES_def Let_def)
qed


text \<open>
  C1, amended. The hybrid kernel writes, at the texel's position in the current bounce
  texture, the sum of its per-sample contributions multiplied componentwise by the diffuse
  colour and divided by \<open>numSamples * 2 * PI\<close>, with alpha 0. The unbiased kernel
  hands to \<open>write_octree\<close>, at the texel's world position, the sum of its per-sample
  contributions divided by \<open>numSamples * PI\<close>.
\<close>

theorem scatter_written_value:
  "raygen_renderFrame_cell_scattering lp rng junk uvIndex currentBounceTextures
       (hybrid_write_position lp uvIndex) =
     (let tx = hybrid_texel lp uvIndex;
          contributions =
            map (hybrid_contribution lp tx junk)
              (thread_uniforms rng uvIndex (sc_nonEmptyCellIndex lp) NUM_SAMPLES_HEMISPHERE);
          s = vmul (vsum contributions) (diffuseColor tx);
          k = 1 / (real (length contributions) * 2 * PI)
      in Vec4 (x3 s * k) (y3 s * k) (z3 s * k) 0)
   \<and> raygen_renderFrame_cell_scattering_unbiased lp' rng junk' uvIndex' currentBounceOctreeTexture =
     (let tx = unbiased_texel lp' uvIndex';
          contributions =
            map (unbiased_contribution lp' tx junk')
              (thread_uniforms rng uvIndex' (su_nonEmptyCellIndex lp') NUM_DIRECTION_SAMPLES);
          s = vsum contributions;
          k = 1 / (real (length contributions) * PI)
      in su_write_octree lp' (worldPosition tx) (Vec3 (x3 s * k) (y3 s * k) (z3 s * k))
           currentBounceOctreeTexture)"
proof -
  have n: "length (thread_uniforms rng a b n) = n" for a b n
    by (simp add: thread_uniforms_def length_sample_seeds)
  show ?thesis
    by (simp add: raygen_renderFrame_cell_scattering_def hybrid_resultValue_def
        hybrid_totalRadiance_sum raygen_renderFrame_cell_scattering_unbiased_def
        unbiased_result_sum n Let_def)
qed

text \<open>
  C1, as stated, fails for the unbiased kernel. With every sample contributing (1,1,1)
  and a diffuse colour of (1/2,1/2,1/2), the value written is \<open>1 / PI\<close> in each
  channel, while sum times albedo over \<open>numSamples * 2 * PI\<close> is \<open>1 / (4 * PI)\<close>.
\<close>

theorem scatter_unbiased_counterexample:
  "raygen_renderFrame_cell_scattering_unbiased example_unbiased example_rng vzero 0
       (\<lambda>p. vzero) (Vec3 0 0 0.00001) = Vec3 (1 / PI) (1 / PI) (1 / PI)
   \<and> (let tx = unbiased_texel example_unbiased 0;
           contributions =
             map (unbiased_contribution example_unbiased tx vzero)
               (thread_uniforms example_rng 0 (su_nonEmptyCellIndex example_unbiased)
                  NUM_DIRECTION_SAMPLES);
           s = vmul (vsum contributions) (diffuseColorUV tx);
           k = 1 / (real (length contributions) * 2 * PI)
       in Vec3 (x3 s * k) (y3 s * k) (z3 s * k)) = Vec3 (1 / (4 * PI)) (1 / (4 * PI)) (1 / (4 * PI))
   \<and> 1 / PI \<noteq> 1 / (4 * PI)"
proof -
  have w: "su_write_octree example_unbiased = (\<lambda>p c t. t(p := c))"
    by (simp add: example_unbiased_def)
  have a: "raygen_renderFrame_cell_scattering_unbiased example_unbiased example_rng vzero 0
       (\<lambda>p. vzero) (Vec3 0 0 0.00001) = Vec3 (1 / PI) (1 / PI) (1 / PI)"
    by (simp add: raygen_renderFrame_cell_scattering_unbiased_def example_unbiased_result w
        example_unbiased_texel)
  have b: "(let tx = unbiased_texel example_unbiased 0;
           contributions =
             map (unbiased_contribution example_unbiased tx vzero)
               (thread_uniforms example_rng 0 (su_nonEmptyCellIndex example_unbiased)
                  NUM_DIRECTION_SAMPLES);
           s = vmul (vsum contributions) (diffuseColorUV tx);
           k = 1 / (real (length contributions) * 2 * PI)
       in Vec3 (x3 s * k) (y3 s * k) (z3 s * k)) = Vec3 (1 / (4 * PI)) (1 / (4 * PI)) (1 / (4 * PI))"
    using PI_pos
    by (simp add: Let_def example_thread_uniforms example_unbiased_contribution vsum_replicate
        vscale_def vmul_def example_unbiased_texel NUM_DIRECTION_SAMPLES_def)
  have c: "1 / PI \<noteq> 1 / (4 * PI)"
    using PI_pos by (simp add: field_simps)
  from a b c show ?thesis by blast
qed

section \<open>Scatter pass: traced contribution or probe\<close>

text \<open>
  C3. In the hybrid scatter kernel the ray generation program clears the hit-found
  register before the trace, the closest-hit program sets it to 1, and the miss program
  leaves the payload alone, so after the trace the register is 1 exactly when a hit was
  reported. Each sample takes the traced contribution when the register is 1 and the
  probe contribution otherwise. The hit distance plays no part: the payload that the
  closest-hit program leaves is the same for every value of the distance.
\<close>

theorem scatter_branch_by_hit_flag:
  "hitFound (closesthit_radiance_cell_scattering_scene lp h prd) = 1
   \<and> miss_radiance_cell_scattering prd = prd
   \<and> hitFound (hybrid_trace lp tx randomDir junk) =
       (case optixTrace (sc_sceneTraversable lp) (UVWorldPos tx) randomDir 0 TRACING_RANGE of
          None \<Rightarrow> 0 | Some reported \<Rightarrow> 1)
   \<and> hybrid_contribution lp tx junk rs =
       (let cosContribution = fst (hybrid_direction tx rs);
            dir = snd (hybrid_direction tx rs);
            prd = hybrid_trace lp tx dir junk
        in if hitFound prd = 1 then traced_contribution cosContribution prd
           else probe_contribution lp tx cosContribution dir)
   \<and> closesthit_radiance_cell_scattering_scene lp (h\<lparr>hitT := t\<rparr>) prd
       = closesthit_radiance_cell_scattering_scene lp h prd"
  by (simp add: closesthit_radiance_cell_scattering_scene_def miss_radiance_cell_scattering_def
      hybrid_trace_def hybrid_contribution_def hit_texcoord_def Let_def
      split: option.split prod.split)

text \<open>
  C10. The hybrid kernel traces with \<open>tmax = TRACING_RANGE = 0\<close>. When every
  intersection of a sample's ray lies at a strictly positive distance, none is in the
  ray interval, the hit-found register stays 0 and the sample's contribution is the
  cube map probe's.
\<close>

theorem scatter_zero_range_probe_only:
  assumes "\<forall>h \<in> set (sc_sceneTraversable lp (UVWorldPos tx) (snd (hybrid_direction tx rs))).
             0 < hitT h"
  shows "TRACING_RANGE = 0
         \<and> hitFound (hybrid_trace lp tx (snd (hybrid_direction tx rs)) junk) = 0
         \<and> hybrid_contribution lp tx junk rs =
             probe_contribution lp tx (fst (hybrid_direction tx rs)) (snd (hybrid_direction tx rs))"
proof -
  have "filter (in_range 0 TRACING_RANGE)
          (sc_sceneTraversable lp (UVWorldPos tx) (snd (hybrid_direction tx rs))) = []"
    using assms by (auto simp: filter_empty_conv in_range_def TRACING_RANGE_def)
  then have miss: "optixTrace (sc_sceneTraversable lp) (UVWorldPos tx)
                     (snd (hybrid_direction tx rs)) 0 TRACING_RANGE = None"
    by (simp add: optixTrace_def)
  then have flag: "hitFound (hybrid_trace lp tx (snd (hybrid_direction tx rs)) junk) = 0"
    by (simp add: hybrid_trace_def miss_radiance_cell_scattering_def)
  then show ?thesis
    by (cases "hybrid_direction tx rs") (simp add: hybrid_contribution_def TRACING_RANGE_def)
qed

lemma example_hybrid_texel:
  "hybrid_texel example_hybrid 0 =
     \<lparr>texelUV = Vec2 0 0, gameObjectNr = 0, UVWorldPos = Vec3 0 0 (1 / 10000),
      UVNormal = Vec3 0 0 1, diffuseColor = Vec3 (1 / 2) (1 / 2) (1 / 2), probeOffset = 0\<rparr>"
  by (simp add: hybrid_texel_def example_hybrid_def xyz_def)

lemma example_hybrid_direction:
  "hybrid_direction
     \<lparr>texelUV = Vec2 0 0, gameObjectNr = 0, UVWorldPos = Vec3 0 0 (1 / 10000),
      UVNormal = Vec3 0 0 1, diffuseColor = Vec3 (1 / 2) (1 / 2) (1 / 2), probeOffset = 0\<rparr>
     (0, 0) = (- 1, Vec3 0 0 1)"
  by (simp add: hybrid_direction_def random_direction_00 normalize_def dot_def vscale_def
      vneg_def Let_def)

lemma example_hybrid_fields:
  "sc_sceneTraversable example_hybrid = floor_scene"
  "sc_cellCenter example_hybrid = Vec3 0 0 0"
  "sc_cubeMaps example_hybrid = (\<lambda>k u v. Vec4 3 3 3 1)"
  "sc_convert_xyz_to_cube_uv example_hybrid = (\<lambda>x y z. (0, 1 / 2, 1 / 2))"
  by (simp_all add: example_hybrid_def)

theorem scatter_zero_range_probe_only_witness:
  "sc_sceneTraversable example_hybrid (UVWorldPos (hybrid_texel example_hybrid 0))
       (snd (hybrid_direction (hybrid_texel example_hybrid 0) (0, 0))) = [example_hit]
   \<and> hitT example_hit = 1
   \<and> TRACING_RANGE = 0
   \<and> hitFound (hybrid_trace example_hybrid (hybrid_texel example_hybrid 0)
         (snd (hybrid_direction (hybrid_texel example_hybrid 0) (0, 0))) vzero) = 0
   \<and> hybrid_contribution example_hybrid (hybrid_texel example_hybrid 0) vzero (0, 0)
       = Vec3 (- 3) (- 3) (- 3)"
proof -
  have far: "\<forall>h \<in> set (sc_sceneTraversable example_hybrid
                 (UVWorldPos (hybrid_texel example_hybrid 0))
                 (snd (hybrid_direction (hybrid_texel example_hybrid 0) (0, 0)))). 0 < hitT h"
    by (simp add: example_hybrid_fields floor_scene_def example_hit_def)
  have probe: "probe_contribution example_hybrid (hybrid_texel example_hybrid 0)
                 (fst (hybrid_direction (hybrid_texel example_hybrid 0) (0, 0)))
                 (snd (hybrid_direction (hybrid_texel example_hybrid 0) (0, 0)))
               = Vec3 (- 3) (- 3) (- 3)"
    by (simp add: example_hybrid_texel example_hybrid_direction probe_contribution_def
        example_hybrid_fields vadd_def vsub_def vzero_def xyz_def vscale_def)
  show ?thesis
    using scatter_zero_range_probe_only [OF far, of vzero] probe
    by (simp add: example_hybrid_fields floor_scene_def example_hit_def)
qed

section \<open>Scatter pass: the random sequence of a thread\<close>













section \<open>Cube map gather pass on a scene without hits\<close>

lemma fold_constant_writes:
  "\<forall>i \<in> set idxs. val i = c \<Longrightarrow>
   fold (\<lambda>i buf. buf(key i := val i)) idxs buf k = (if k \<in> key ` set idxs then c else buf k)"
  by (induction idxs arbitrary: buf) auto

lemma launch_grid_mem:
  "(x, y, z) \<in> set (launch_grid w h d) \<longleftrightarrow> x < w \<and> y < h \<and> z < d"
  by (force simp: launch_grid_def)

lemma gather_rgba_miss:
  "gather_trace lp launchIndex = None \<Longrightarrow> gather_rgba lp junk launchIndex = 0xff000000"
  by (simp add: gather_rgba_def gather_prd_def miss_radiance_cell_gathering_def pack_rgba_def
      float2int_def trunc_toward_zero_def)

text \<open>
  C7. In a cube map gather launch in which every traced ray misses, the miss program
  leaves radiance (0,0,0) in the payload, every thread packs it to opaque black
  \<open>0xff000000\<close>, and after the launch the cube map texel of every launch index
  (u, v, face) holds opaque black.
\<close>

theorem gather_all_miss_black:
  assumes "\<forall>launchIndex \<in> set (launch_grid w h d). gather_trace lp launchIndex = None"
    and "uPixel < w" and "vPixel < h" and "faceIndex < d"
  shows "miss_radiance_cell_gathering prd = Vec3 0 0 0
         \<and> gather_rgba lp (junk (uPixel, vPixel, faceIndex)) (uPixel, vPixel, faceIndex) = 0xff000000
         \<and> gather_launch lp junk (launch_grid w h d) cubeMaps
              (gather_index lp (uPixel, vPixel, faceIndex)) = 0xff000000"
proof -
  have black: "\<forall>i \<in> set (launch_grid w h d). gather_rgba lp (junk i) i = 0xff000000"
    using assms(1) by (simp add: gather_rgba_miss)
  have mem: "(uPixel, vPixel, faceIndex) \<in> set (launch_grid w h d)"
    using assms(2-4) by (simp add: launch_grid_mem)
  have "raygen_renderFrame_cell_gathering lp junk
          = (\<lambda>i buf. buf(gather_index lp i := gather_rgba lp (junk i) i))"
    by (intro ext) (simp add: raygen_renderFrame_cell_gathering_def)
  then have "gather_launch lp junk (launch_grid w h d) cubeMaps
          = fold (\<lambda>i buf. buf(gather_index lp i := gather_rgba lp (junk i) i)) (launch_grid w h d)
              cubeMaps"
    by (simp add: gather_launch_def)
  then show ?thesis
    using fold_constant_writes [OF black, of "gather_index lp" cubeMaps] mem black
    by (auto simp: miss_radiance_cell_gathering_def)
qed

lemma example_gather_miss: "gather_trace example_gather launchIndex = None"
  by (cases launchIndex)
     (simp add: gather_trace_def optixTrace_def example_gather_def empty_scene_def Let_def)

theorem gather_all_miss_black_witness:
  "gather_trace example_gather (2, 3, 5) = None
   \<and> miss_radiance_cell_gathering (Vec3 7 7 7) = Vec3 0 0 0
   \<and> gather_index example_gather (2, 3, 5) = 118
   \<and> gather_launch example_gather (\<lambda>i. Vec3 7 7 7) (launch_grid 4 4 6) (\<lambda>k. 0x12345678) 118
       = 0xff000000"
proof -
  have all: "\<forall>launchIndex \<in> set (launch_grid 4 4 6). gather_trace example_gather launchIndex = None"
    by (simp add: example_gather_miss)
  have idx: "gather_index example_gather (2, 3, 5) = 118"
    by (simp add: gather_index_def example_gather_def)
  show ?thesis
    using gather_all_miss_black [OF all, of 2 3 5 "Vec3 7 7 7" "\<lambda>i. Vec3 7 7 7" "\<lambda>k. 0x12345678"]
    by (simp add: idx example_gather_miss)
qed

section \<open>The weights file, line by line\<close>

lemma upt_9: "[0..<9] = [0, 1, 2, 3, 4, 5, 6, 7, 8]"
  by (simp add: upt_conv_Cons)

lemma upt_8: "[0..<8] = [0, 1, 2, 3, 4, 5, 6, 7]"
  by (simp add: upt_conv_Cons)

lemma mul_int32_4:
  assumes "0 < n" and "n < 2 ^ 29"
  shows "mul_int32 n 4 = n * 4"
proof -
  have "sint (word_of_int (n * 4) :: 32 word) = signed_take_bit 31 (n * 4)"
    by (simp only: sint_sbintrunc') simp
  also have "\<dots> = n * 4"
    using assms by (intro signed_take_bit_int_eq_self) simp_all
  finally show ?thesis
    by (simp only: mul_int32_def)
qed

lemma sh_weight_eq: "n < 2 ^ 29 \<Longrightarrow> sh_weight n = Some (normalization_weight n)"
  by (simp add: sh_weight_def normalization_weight_def mul_int32_4)

lemma newline_not_in_spaced: "newline \<notin> set (spaced cs)"
  by (induction cs rule: spaced.induct) (simp_all add: newline_def space_def)

lemma newline_not_in_written_line: "newline \<notin> set (written_line weights numSamples k)"
  by (simp add: written_line_def write_coefficients_def coefficient_item_def upt_9 newline_def
      space_def split: option.split)

lemma write_sh_written_line:
  "write_sh weights numSamples i sh = written_line weights numSamples (i * 8 + sh) @ [newline]"
  by (simp add: write_sh_def written_line_def SPHERICAL_HARMONIC_BASIS_FUNCTIONS_def Let_def
      algebra_simps)

lemma written_line_sh_line:
  "numSamples ! k < 2 ^ 29 \<Longrightarrow> written_line weights numSamples k = sh_line weights numSamples k"
  by (simp add: written_line_def write_coefficients_def coefficient_item_def sh_line_def
      sh_weight_eq upt_9)

lemma lines_of_line: "newline \<notin> set l \<Longrightarrow> lines_of (l @ newline # rest) = l # lines_of rest"
  by (induction l) auto

lemma lines_of_concat:
  "\<forall>k \<in> set ks. newline \<notin> set (line k) \<Longrightarrow>
   lines_of (concat (map (\<lambda>k. line k @ [newline]) ks)) = map line ks"
  by (induction ks) (simp_all add: lines_of_line)

lemma map_upt_shift: "map f [m..<m + k] = map (\<lambda>j. f (m + j)) [0..<k]"
  by (induction k) simp_all

lemma concat_cells:
  "concat (map (\<lambda>i. map (\<lambda>sh. f (i * 8 + sh)) [0..<8]) [0..<n]) = map f [0..<n * 8]"
proof (induction n)
  case 0
  show ?case by simp
next
  case (Suc n)
  have "Suc n * 8 = n * 8 + 8" by simp
  then have split: "[0..<Suc n * 8] = [0..<n * 8] @ [n * 8..<n * 8 + 8]"
    by (simp only: upt_add_eq_append [OF le0] add_0)
  have "concat (map (\<lambda>i. map (\<lambda>sh. f (i * 8 + sh)) [0..<8]) [0..<Suc n])
        = concat (map (\<lambda>i. map (\<lambda>sh. f (i * 8 + sh)) [0..<8]) [0..<n])
          @ map (\<lambda>sh. f (n * 8 + sh)) [0..<8]"
    by simp
  also have "\<dots> = map f [0..<n * 8] @ map f [n * 8..<n * 8 + 8]"
    by (simp only: Suc.IH map_upt_shift)
  also have "\<dots> = map f [0..<Suc n * 8]"
    by (simp only: split map_append)
  finally show ?case .
qed

lemma concat_map_concat: "concat (map (\<lambda>i. concat (g i)) xs) = concat (concat (map g xs))"
  by (induction xs) simp_all

lemma writeWeights_written_lines:
  "lines_of (writeWeightsToTxtFile weights numSamples amountCells)
     = map (written_line weights numSamples) [0..<amountCells * 8]"
proof -
  have ws: "write_sh weights numSamples i
              = (\<lambda>sh. written_line weights numSamples (i * 8 + sh) @ [newline])" for i
    by (intro ext) (rule write_sh_written_line)
  have "writeWeightsToTxtFile weights numSamples amountCells
          = concat (map (\<lambda>i. concat (map (\<lambda>sh. written_line weights numSamples (i * 8 + sh)
                                              @ [newline]) [0..<8])) [0..<amountCells])"
    by (simp only: writeWeightsToTxtFile_def ws)
  also have "\<dots> = concat (concat (map (\<lambda>i. map (\<lambda>sh. written_line weights numSamples (i * 8 + sh)
                                        @ [newline]) [0..<8]) [0..<amountCells]))"
    by (rule concat_map_concat)
  also have "\<dots> = concat (map (\<lambda>k. written_line weights numSamples k @ [newline])
                         [0..<amountCells * 8])"
    by (simp only: concat_cells [of "\<lambda>k. written_line weights numSamples k @ [newline]"])
  finally have written: "writeWeightsToTxtFile weights numSamples amountCells
                        = concat (map (\<lambda>k. written_line weights numSamples k @ [newline])
                                    [0..<amountCells * 8])" .
  have no_nl: "\<forall>k \<in> set [0..<amountCells * 8].
                 newline \<notin> set (written_line weights numSamples k)"
    by (simp add: newline_not_in_written_line)
  show ?thesis
    unfolding written by (rule lines_of_concat [OF no_nl])
qed

text \<open>
  The file always has one line per pair (cell, sub-probe), in cell-major order. While no
  sample count reaches \<open>2 ^ 29\<close> the product \<open>numSamples[k] * 4\<close> does not overflow, and
  each line is the nine coefficients of its sub-probe multiplied by \<open>1 / (N * 4 * pi)\<close> and
  separated by single spaces; for a sub-probe with zero samples the weight is 0 and the
  line holds nine zeros.
\<close>

lemma weights_file_lines:
  assumes "\<forall>k < amountCells * 8. numSamples ! k < 2 ^ 29"
  shows "lines_of (writeWeightsToTxtFile weights numSamples amountCells)
           = map (sh_line weights numSamples) [0..<amountCells * 8]
         \<and> (\<forall>k < amountCells * 8. numSamples ! k = 0 \<longrightarrow>
               sh_line weights numSamples k = spaced (replicate 9 0))"
proof -
  have "map (written_line weights numSamples) [0..<amountCells * 8]
          = map (sh_line weights numSamples) [0..<amountCells * 8]"
    using assms by (intro map_cong refl) (simp add: written_line_sh_line)
  then have a: "lines_of (writeWeightsToTxtFile weights numSamples amountCells)
           = map (sh_line weights numSamples) [0..<amountCells * 8]"
    by (simp only: writeWeights_written_lines)
  have b: "sh_line weights numSamples k = spaced (replicate 9 0)" if "numSamples ! k = 0" for k
    using that
    by (simp add: sh_line_def normalization_weight_def upt_9 numeral_eq_Suc)
  from a b show ?thesis by blast
qed

lemma weights_file_lines_example:
  "list_all (\<lambda>n. n < 2 ^ 29) example_numSamples
   \<and> lines_of (writeWeightsToTxtFile example_weights example_numSamples 1)
       = map (sh_line example_weights example_numSamples) [0, 1, 2, 3, 4, 5, 6, 7]
   \<and> sh_line example_weights example_numSamples 0 = spaced (replicate 9 (1 / (10 * pi)))
   \<and> example_numSamples ! 1 = 0
   \<and> sh_line example_weights example_numSamples 1 = spaced (replicate 9 0)"
proof -
  have small: "\<forall>n \<in> set example_numSamples. n < 2 ^ 29"
    by (simp add: example_numSamples_def)
  have len: "length example_numSamples = 1 * 8"
    by (simp add: example_numSamples_def)
  have h: "\<forall>k < 1 * 8. example_numSamples ! k < 2 ^ 29"
    using small [unfolded all_set_conv_all_nth len] .
  have first: "sh_line example_weights example_numSamples 0 = spaced (replicate 9 (1 / (10 * pi)))"
    by (simp add: sh_line_def example_weights_def example_numSamples_def normalization_weight_def
        upt_9 numeral_eq_Suc)
  have z: "example_numSamples ! 1 = 0"
    by (simp add: example_numSamples_def)
  show ?thesis
    using weights_file_lines [OF h, of example_weights] small first z
    by (simp add: upt_8 list_all_iff)
qed

lemma mul_int32_overflow: "mul_int32 536870912 4 = - 2147483648"
  by (simp add: mul_int32_def)

lemma overflow_weight: "sh_weight 536870912 = Some (1 / (- 2147483648 * pi))"
  by (simp add: sh_weight_def mul_int32_overflow)

text \<open>
  C8. The claim fails on the code where a sample count reaches \<open>2 ^ 29\<close>. With
  \<open>numSamples[0] = 536870912\<close> the int product \<open>numSamples[0] * 4\<close> wraps to
  \<open>-2147483648\<close>, and the first line of the file holds the coefficients multiplied by the
  negative weight \<open>1 / (-2147483648 * pi)\<close>, not by \<open>1 / (N * 4 * pi)\<close>.
\<close>

theorem weights_file_overflow:
  "mul_int32 536870912 4 = - 2147483648
   \<and> lines_of (writeWeightsToTxtFile example_weights overflow_numSamples 1) ! 0
       = spaced (replicate 9 (2 * (1 / (- 2147483648 * pi))))
   \<and> sh_line example_weights overflow_numSamples 0
       = spaced (replicate 9 (2 * (1 / (536870912 * 4 * pi))))
   \<and> 2 * (1 / (- 2147483648 * pi)) < 0
   \<and> 0 < 2 * (1 / (536870912 * 4 * pi))"
proof -
  have line: "lines_of (writeWeightsToTxtFile example_weights overflow_numSamples 1) ! 0
                = written_line example_weights overflow_numSamples 0"
    by (simp add: writeWeights_written_lines upt_8)
  have code: "written_line example_weights overflow_numSamples 0
                = spaced (replicate 9 (2 * (1 / (- 2147483648 * pi))))"
    by (simp add: written_line_def overflow_numSamples_def overflow_weight write_coefficients_def
        coefficient_item_def example_weights_def upt_9 numeral_eq_Suc)
  have spec: "sh_line example_weights overflow_numSamples 0
                = spaced (replicate 9 (2 * (1 / (536870912 * 4 * pi))))"
    by (simp add: sh_line_def overflow_numSamples_def normalization_weight_def
        example_weights_def upt_9 numeral_eq_Suc)
  show ?thesis
    by (simp only: line code spec mul_int32_overflow) (simp add: field_simps)
qed

section \<open>UV to world projection: first match wins\<close>









section \<open>Octree file round trip\<close>

lemma u32_bytes_roundtrip:
  "u32_of_bytes (ucast w) (ucast (drop_bit 8 w)) (ucast (drop_bit 16 w)) (ucast (drop_bit 24 w)) = w"
proof (rule bit_word_eqI)
  fix n
  assume "n < LENGTH(32)"
  then have n: "n < 32" by simp
  consider "n < 8" | "8 \<le> n" "n < 16" | "16 \<le> n" "n < 24" | "24 \<le> n"
    by linarith
  then show "bit (u32_of_bytes (ucast w) (ucast (drop_bit 8 w)) (ucast (drop_bit 16 w))
                   (ucast (drop_bit 24 w))) n = bit w n"
    using n by cases (auto simp: u32_of_bytes_def bit_simps)
qed

lemma read_u32s_bytes:
  "read_u32s (concat (map bytes_of_u32 ws) @ rest) = map_option ((@) ws) (read_u32s rest)"
  by (induction ws)
     (simp_all add: bytes_of_u32_def u32_bytes_roundtrip option.map_comp comp_def option.map_ident
        split: option.split)

text \<open>
  C4. Saving an octree to a file and loading the file back gives the octree that was
  saved: the same maximum depth, the same grid resolution and a flat \<open>gpuOctree\<close> array
  with the same 32 bits in every entry.
\<close>

theorem octree_file_roundtrip:
  "loadOctreeFromFile (saveOctreeToFile t) = Some t"
proof -
  obtain rx ry rz where d: "textureDimensions t = (rx, ry, rz)"
    by (cases "textureDimensions t")
  have "saveOctreeToFile t
          = concat (map bytes_of_u32 (maxDepth t # rx # ry # rz # gpuOctree t)) @ []"
    by (simp add: saveOctreeToFile_def d)
  then have "read_u32s (saveOctreeToFile t) = Some (maxDepth t # rx # ry # rz # gpuOctree t)"
    by (simp only: read_u32s_bytes) simp
  then show ?thesis
    using d by (simp add: loadOctreeFromFile_def)
qed

end
